theory Spec2Isabelle
  imports Complex_Main
begin

section \<open>Tensors and the numeric backend\<close>

text \<open>
  The module \<^verbatim>\<open>keras/regularizers.py\<close> computes penalties over tensors that an external
  numeric backend (imported as \<^verbatim>\<open>K\<close>) supplies. A tensor is modelled by its shape and its
  elements in row-major order. Its elements are floating-point numbers in the program; here
  they are real numbers, so every statement below is about the exact arithmetic that the
  floating-point computation approximates.
\<close>

datatype tensor = Tensor (shape: "nat list") (elems: "real list")

text \<open>
  Modelled from the spec: the backend is not part of this file. The spec lists what it
  provides: elementwise abs and square, sum-reduction, matrix multiply and shape
  introspection. \<^verbatim>\<open>K.ndim\<close> is the rank, \<^verbatim>\<open>K.shape\<close> the shape, \<^verbatim>\<open>K.abs\<close> and
  \<^verbatim>\<open>K.square\<close> work element by element, \<^verbatim>\<open>K.sum\<close> adds all the elements up to a scalar.
\<close>

definition K_ndim :: "tensor \<Rightarrow> nat" where
  "K_ndim t = length (shape t)"

definition K_shape :: "tensor \<Rightarrow> nat list" where
  "K_shape t = shape t"

definition K_abs :: "tensor \<Rightarrow> tensor" where
  "K_abs t = Tensor (shape t) (map abs (elems t))"

definition K_square :: "tensor \<Rightarrow> tensor" where
  "K_square t = Tensor (shape t) (map (\<lambda>v. v * v) (elems t))"

definition K_sum :: "tensor \<Rightarrow> real" where
  "K_sum t = sum_list (elems t)"

text \<open>
  Modelled from the spec: \<^verbatim>\<open>K.ones(shape)\<close> is the tensor of that shape filled with ones.
\<close>

definition K_ones :: "nat list \<Rightarrow> tensor" where
  "K_ones shp = Tensor shp (replicate (prod_list shp) 1)"

text \<open>
  Modelled from the spec: transpose and matrix multiply of the backend, on matrices (the
  regularizer below reaches them only after its rank check). \<open>entry t i j\<close> is the element
  in row \<open>i\<close> and column \<open>j\<close> of a matrix stored row by row.
\<close>

definition nrows :: "tensor \<Rightarrow> nat" where
  "nrows t = (case shape t of [m, n] \<Rightarrow> m | _ \<Rightarrow> 0)"

definition ncols :: "tensor \<Rightarrow> nat" where
  "ncols t = (case shape t of [m, n] \<Rightarrow> n | _ \<Rightarrow> 0)"

definition entry :: "tensor \<Rightarrow> nat \<Rightarrow> nat \<Rightarrow> real" where
  "entry t i j = elems t ! (i * ncols t + j)"

definition K_transpose :: "tensor \<Rightarrow> tensor" where
  "K_transpose t =
     Tensor [ncols t, nrows t]
       (concat (map (\<lambda>j. map (\<lambda>i. entry t i j) [0..<nrows t]) [0..<ncols t]))"

definition K_dot :: "tensor \<Rightarrow> tensor \<Rightarrow> tensor" where
  "K_dot a b =
     Tensor [nrows a, ncols b]
       (concat (map (\<lambda>i. map (\<lambda>j. sum_list (map (\<lambda>l. entry a i l * entry b l j) [0..<ncols a]))
                              [0..<ncols b])
                    [0..<nrows a]))"

text \<open>
  The Python operators the module applies to tensors: a float times a tensor, a tensor
  divided by a tensor element by element, and a tensor raised to the power \<^verbatim>\<open>0.5\<close>.

  A float divided by zero is no real number (it is \<^verbatim>\<open>nan\<close> for \<^verbatim>\<open>0/0\<close> and an infinity
  otherwise), and neither is a negative float raised to the power \<^verbatim>\<open>0.5\<close> (it is
  \<^verbatim>\<open>nan\<close>). Such a value stays outside the reals through every later product, power and
  sum. So the quotient and the power are \<open>None\<close> as soon as one of their elements is no real
  number, and \<open>None\<close> is handed on by what follows.
\<close>

definition scale :: "real \<Rightarrow> tensor \<Rightarrow> tensor" where
  "scale c t = Tensor (shape t) (map (\<lambda>v. c * v) (elems t))"

definition tensor_div :: "tensor \<Rightarrow> tensor \<Rightarrow> tensor option" where
  "tensor_div a b =
     (if 0 \<in> set (map snd (zip (elems a) (elems b))) then None
      else Some (Tensor (shape a) (map (\<lambda>(u, v). u / v) (zip (elems a) (elems b)))))"

definition tensor_sqrt :: "tensor \<Rightarrow> tensor option" where
  "tensor_sqrt t =
     (if list_ex (\<lambda>v. v < 0) (elems t) then None
      else Some (Tensor (shape t) (map sqrt (elems t))))"

text \<open>
  Modelled from the spec: \<^verbatim>\<open>K.cast_to_floatx\<close> stores a coefficient in the backend's
  floating-point representation. Over the reals it keeps the number as it is.
\<close>

definition cast_to_floatx :: "real \<Rightarrow> real" where
  "cast_to_floatx v = v"

section \<open>The stateless penalties\<close>

subsection \<open>The base class\<close>

text \<open>\<^verbatim>\<open>Regularizer.__call__\<close> returns \<^verbatim>\<open>0.\<close> for any input.\<close>

definition Regularizer_call :: "tensor \<Rightarrow> real" where
  "Regularizer_call x = 0"

subsection \<open>L1L2\<close>

datatype L1L2 = L1L2 (l1: real) (l2: real)

definition L1L2_init :: "real \<Rightarrow> real \<Rightarrow> L1L2" where
  "L1L2_init a b = L1L2 (cast_to_floatx a) (cast_to_floatx b)"

text \<open>
  A penalty is accumulated by statements of the form \<^verbatim>\<open>regularization += K.sum(...)\<close>,
  each under a test of its coefficient. To tell a summand that is never computed from one
  that is computed and happens to be zero, the accumulator carries, next to the running
  value, the list of the summands that were computed, in order.
\<close>

datatype summand = AbsSum | SquareSum

type_synonym accumulator = "real \<times> summand list"

definition add_sum :: "summand \<Rightarrow> tensor \<Rightarrow> accumulator \<Rightarrow> accumulator" where
  "add_sum tag t acc = (fst acc + K_sum t, snd acc @ [tag])"

text \<open>
  \<^verbatim>\<open>L1L2.__call__\<close>. A coefficient is tested for truth, which for a float means that it is
  not zero.
\<close>

definition L1L2_call :: "L1L2 \<Rightarrow> tensor \<Rightarrow> accumulator" where
  "L1L2_call self x =
     (let regularization = (0, []);
          regularization = (if l1 self \<noteq> 0
                            then add_sum AbsSum (scale (l1 self) (K_abs x)) regularization
                            else regularization);
          regularization = (if l2 self \<noteq> 0
                            then add_sum SquareSum (scale (l2 self) (K_square x)) regularization
                            else regularization)
      in regularization)"

subsection \<open>Errors\<close>

text \<open>
  An exception that leaves a function is a value. \<open>ValueError\<close> and \<open>Exception\<close> are
  raised by this file with the message given. \<open>ValueErrorOnFloat\<close> is a \<open>ValueError\<close> of
  this file whose message is the given text followed by what \<^verbatim>\<open>str\<close> makes of the given
  float; the decimal text of a float is not computed here. The others come from Python
  itself: unpacking a sequence of the wrong length, a call with a keyword that the callee
  does not accept, a call that leaves a parameter without a value, a call of an object
  that is not callable, a key looked up in a float or a string, a method that the object does
  not have. \<open>NotANumber\<close> stands for what happens when a string is passed where the model
  keeps a number. \<open>UnknownObject\<close> is the not-found error of the registry; it carries the
  printable module name and the class name. \<open>HelperError\<close> is an exception that
  a call of the imported helper of the given name ends with.
\<close>

datatype error =
    ValueError string
  | ValueErrorOnFloat string real
  | Exception string
  | UnpackError
  | UnexpectedKeyword string
  | MissingArgument string
  | NotCallable
  | NotAMapping
  | NotANumber string
  | AttributeError string
  | UnknownObject string string
  | HelperError string

subsection \<open>EigenvalueRegularizer\<close>

text \<open>
  The class body starts with two string literals; the second holds an older version of the
  class and is not code. What the class defines is \<^verbatim>\<open>__init__(self, k)\<close> and
  \<^verbatim>\<open>__call__(self, x)\<close>. The local variable \<^verbatim>\<open>o\<close> of the program is \<open>ones\<close> here.
\<close>

datatype EigenvalueRegularizer = EigenvalueRegularizer (k: real)

definition EigenvalueRegularizer_init :: "real \<Rightarrow> EigenvalueRegularizer" where
  "EigenvalueRegularizer_init k0 = EigenvalueRegularizer k0"

definition times_scalar :: "tensor \<Rightarrow> real \<Rightarrow> tensor" where
  "times_scalar t c = Tensor (shape t) (map (\<lambda>v. v * c) (elems t))"

definition rank_message :: string where
  "rank_message = ''EigenvalueRegularizer '' @ ''is only available for tensors of rank 2.''"

text \<open>
  \<^verbatim>\<open>EigenvalueRegularizer.__call__\<close>. It returns a float; \<open>Inr None\<close> is a float that is
  no real number.
\<close>

definition EigenvalueRegularizer_call ::
    "EigenvalueRegularizer \<Rightarrow> tensor \<Rightarrow> error + real option" where
  "EigenvalueRegularizer_call self x =
     (if K_ndim x \<noteq> 2 then Inl (ValueError rank_message)
      else
        let covariance = K_dot (K_transpose x) x
        in case K_shape covariance of
             [dim1, dim2] \<Rightarrow>
               let power = (9 :: nat);
                   ones = K_ones [dim1, 1];
                   main_eigenvect = K_dot covariance ones;
                   main_eigenvect = fold (\<lambda>n v. K_dot covariance v) [0..<power - 1] main_eigenvect;
                   covariance_d = K_dot covariance main_eigenvect;
                   main_eigenval = tensor_div (K_dot (K_transpose covariance_d) main_eigenvect)
                                              (K_dot (K_transpose main_eigenvect) main_eigenvect);
                   regularization =
                     (case main_eigenval of
                        None \<Rightarrow> None
                      | Some eigenval \<Rightarrow>
                          (case tensor_sqrt eigenval of
                             None \<Rightarrow> None
                           | Some powered \<Rightarrow> Some (times_scalar powered (k self))))
               in Inr (case regularization of None \<Rightarrow> None | Some r \<Rightarrow> Some (K_sum r))
           | _ \<Rightarrow> Inl UnpackError)"

section \<open>The legacy bound variants\<close>

text \<open>
  Modelled from the spec: \<^verbatim>\<open>K.in_train_phase(x, alt)\<close> selects \<^verbatim>\<open>x\<close> in the training
  phase and \<^verbatim>\<open>alt\<close> outside it. The phase is ambient in the program; here it is the
  first argument.
\<close>

definition K_in_train_phase :: "bool \<Rightarrow> 'a \<Rightarrow> 'a \<Rightarrow> 'a" where
  "K_in_train_phase training x alt = (if training then x else alt)"

subsection \<open>WeightRegularizer\<close>

text \<open>
  The attributes are \<^verbatim>\<open>l1\<close>, \<^verbatim>\<open>l2\<close>, \<^verbatim>\<open>uses_learning_phase\<close> and \<^verbatim>\<open>p\<close>, the bound
  parameter tensor or \<^verbatim>\<open>None\<close>. The fields carry the prefix \<open>wr\<close> because \<open>l1\<close> and \<open>l2\<close>
  are the fields of \<open>L1L2\<close> already. A method that assigns to an attribute returns the
  updated instance.
\<close>

record WeightRegularizer =
  wr_l1 :: real
  wr_l2 :: real
  wr_uses_learning_phase :: bool
  wr_p :: "tensor option"

definition WeightRegularizer_init :: "real \<Rightarrow> real \<Rightarrow> WeightRegularizer" where
  "WeightRegularizer_init a b =
     \<lparr>wr_l1 = cast_to_floatx a, wr_l2 = cast_to_floatx b,
      wr_uses_learning_phase = True, wr_p = None\<rparr>"

definition reuse_message :: string where
  "reuse_message = ''Regularizers cannot be reused. '' @ ''Instantiate one regularizer per layer.''"

definition set_param :: "WeightRegularizer \<Rightarrow> tensor option \<Rightarrow> error + WeightRegularizer" where
  "set_param self param =
     (if wr_p self \<noteq> None then Inl (Exception reuse_message)
      else Inr (self\<lparr>wr_p := param\<rparr>))"

text \<open>The message holds two backquotes and four double quotes.\<close>

definition backquote :: string where
  "backquote = [CHR 0x60]"

definition dquote :: string where
  "dquote = [CHR 0x22]"

definition unbound_param_message :: string where
  "unbound_param_message =
     ''Need to call '' @ backquote @ ''set_param'' @ backquote @ '' on '' @
     ''WeightRegularizer instance '' @
     ''before calling the instance. '' @
     ''Check that you are not passing '' @
     ''a WeightRegularizer instead of an '' @
     ''ActivityRegularizer '' @
     ''(i.e. activity_regularizer='' @ dquote @ ''l2'' @ dquote @ '' instead '' @
     ''of activity_regularizer='' @ dquote @ ''activity_l2'' @ dquote @ ''.''"

text \<open>
  \<^verbatim>\<open>WeightRegularizer.__call__\<close>. The loss is a scalar value, so \<^verbatim>\<open>+=\<close> rebinds
  \<^verbatim>\<open>regularized_loss\<close> and leaves \<^verbatim>\<open>loss\<close> as it was. The result is the loss returned
  together with the summands that were computed; they are computed before
  \<^verbatim>\<open>K.in_train_phase\<close> selects, in either phase.
\<close>

definition WeightRegularizer_call ::
    "WeightRegularizer \<Rightarrow> real \<Rightarrow> bool \<Rightarrow> error + accumulator" where
  "WeightRegularizer_call self loss training =
     (case wr_p self of
        None \<Rightarrow> Inl (Exception unbound_param_message)
      | Some param \<Rightarrow>
          let regularized_loss = (loss, []);
              regularized_loss = (if wr_l1 self \<noteq> 0
                                  then add_sum AbsSum (scale (wr_l1 self) (K_abs param)) regularized_loss
                                  else regularized_loss);
              regularized_loss = (if wr_l2 self \<noteq> 0
                                  then add_sum SquareSum (scale (wr_l2 self) (K_square param)) regularized_loss
                                  else regularized_loss)
          in Inr (K_in_train_phase training (fst regularized_loss) loss, snd regularized_loss))"

subsection \<open>ActivityRegularizer\<close>

text \<open>
  Modelled from the spec: a layer is not part of this file. The regularizer reads the
  number of its inbound nodes (its invocation sites) and the output tensor at each of them,
  so a layer is the list of these output tensors.
\<close>

datatype layer = Layer (node_outputs: "tensor list")

definition inbound_nodes :: "layer \<Rightarrow> nat list" where
  "inbound_nodes ly = [0..<length (node_outputs ly)]"

definition get_output_at :: "layer \<Rightarrow> nat \<Rightarrow> tensor" where
  "get_output_at ly i = node_outputs ly ! i"

record ActivityRegularizer =
  ar_l1 :: real
  ar_l2 :: real
  ar_uses_learning_phase :: bool
  ar_layer :: "layer option"

definition ActivityRegularizer_init :: "real \<Rightarrow> real \<Rightarrow> ActivityRegularizer" where
  "ActivityRegularizer_init a b =
     \<lparr>ar_l1 = cast_to_floatx a, ar_l2 = cast_to_floatx b,
      ar_uses_learning_phase = True, ar_layer = None\<rparr>"

definition set_layer :: "ActivityRegularizer \<Rightarrow> layer option \<Rightarrow> error + ActivityRegularizer" where
  "set_layer self ly =
     (if ar_layer self \<noteq> None then Inl (Exception ''Regularizers cannot be reused'')
      else Inr (self\<lparr>ar_layer := ly\<rparr>))"

definition unbound_layer_message :: string where
  "unbound_layer_message =
     ''Need to call '' @ backquote @ ''set_layer'' @ backquote @ '' on '' @
     ''ActivityRegularizer instance '' @
     ''before calling the instance.''"

definition ActivityRegularizer_call ::
    "ActivityRegularizer \<Rightarrow> real \<Rightarrow> bool \<Rightarrow> error + accumulator" where
  "ActivityRegularizer_call self loss training =
     (case ar_layer self of
        None \<Rightarrow> Inl (Exception unbound_layer_message)
      | Some ly \<Rightarrow>
          let regularized_loss =
                fold (\<lambda>i regularized_loss.
                        let output = get_output_at ly i;
                            regularized_loss =
                              (if ar_l1 self \<noteq> 0
                               then add_sum AbsSum (scale (ar_l1 self) (K_abs output)) regularized_loss
                               else regularized_loss);
                            regularized_loss =
                              (if ar_l2 self \<noteq> 0
                               then add_sum SquareSum (scale (ar_l2 self) (K_square output)) regularized_loss
                               else regularized_loss)
                        in regularized_loss)
                     [0..<length (inbound_nodes ly)] (loss, [])
          in Inr (K_in_train_phase training (fst regularized_loss) loss, snd regularized_loss))"

section \<open>Configurations, the registry and identifiers\<close>

subsection \<open>Instances and their configurations\<close>

text \<open>
  A configuration is a dictionary from parameter names to values. The values that this
  file puts there are floats and, in the legacy classes, the class name under the key
  \<^verbatim>\<open>name\<close>. The keys of a dictionary are distinct; the list keeps the order in which
  they were written. A serialized regularizer is the dictionary with the keys
  \<^verbatim>\<open>class_name\<close> and \<^verbatim>\<open>config\<close>.
\<close>

datatype pyvalue = PyFloat real | PyStr string

type_synonym kwargs = "(string \<times> pyvalue) list"

record serialized =
  class_name :: string
  config :: kwargs

text \<open>An instance of one of the five classes of the module.\<close>

datatype regularizer =
    Regularizer_instance
  | L1L2_instance L1L2
  | EigenvalueRegularizer_instance EigenvalueRegularizer
  | WeightRegularizer_instance WeightRegularizer
  | ActivityRegularizer_instance ActivityRegularizer

definition L1L2_get_config :: "L1L2 \<Rightarrow> kwargs" where
  "L1L2_get_config self = [(''l1'', PyFloat (l1 self)), (''l2'', PyFloat (l2 self))]"

definition WeightRegularizer_get_config :: "WeightRegularizer \<Rightarrow> kwargs" where
  "WeightRegularizer_get_config self =
     [(''name'', PyStr ''WeightRegularizer''),
      (''l1'', PyFloat (wr_l1 self)),
      (''l2'', PyFloat (wr_l2 self))]"

definition ActivityRegularizer_get_config :: "ActivityRegularizer \<Rightarrow> kwargs" where
  "ActivityRegularizer_get_config self =
     [(''name'', PyStr ''ActivityRegularizer''),
      (''l1'', PyFloat (ar_l1 self)),
      (''l2'', PyFloat (ar_l2 self))]"

text \<open>
  Looking the method \<^verbatim>\<open>get_config\<close> up on an instance and calling it. \<^verbatim>\<open>Regularizer\<close>
  and \<^verbatim>\<open>EigenvalueRegularizer\<close> define no such method, and no class they inherit from
  does.
\<close>

fun get_config :: "regularizer \<Rightarrow> kwargs option" where
  "get_config Regularizer_instance = None"
| "get_config (L1L2_instance r) = Some (L1L2_get_config r)"
| "get_config (EigenvalueRegularizer_instance r) = None"
| "get_config (WeightRegularizer_instance r) = Some (WeightRegularizer_get_config r)"
| "get_config (ActivityRegularizer_instance r) = Some (ActivityRegularizer_get_config r)"

fun class_name_of :: "regularizer \<Rightarrow> string" where
  "class_name_of Regularizer_instance = ''Regularizer''"
| "class_name_of (L1L2_instance r) = ''L1L2''"
| "class_name_of (EigenvalueRegularizer_instance r) = ''EigenvalueRegularizer''"
| "class_name_of (WeightRegularizer_instance r) = ''WeightRegularizer''"
| "class_name_of (ActivityRegularizer_instance r) = ''ActivityRegularizer''"

text \<open>
  Modelled from the spec: \<^verbatim>\<open>serialize_keras_object\<close> lives in
  \<^verbatim>\<open>keras/utils/generic_utils.py\<close>, which is not part of this file. By the spec it
  produces the mapping with \<^verbatim>\<open>class_name\<close> and \<^verbatim>\<open>config\<close>, where \<^verbatim>\<open>config\<close> is the
  variant's own parameter mapping. An instance without \<^verbatim>\<open>get_config\<close> has no parameter
  mapping to give.
\<close>

definition serialize_keras_object :: "regularizer \<Rightarrow> error + serialized" where
  "serialize_keras_object instance =
     (case get_config instance of
        None \<Rightarrow> Inl (AttributeError ''get_config'')
      | Some c \<Rightarrow> Inr \<lparr>class_name = class_name_of instance, config = c\<rparr>)"

definition serialize :: "regularizer \<Rightarrow> error + serialized" where
  "serialize regularizer = serialize_keras_object regularizer"

subsection \<open>Calls with keyword parameters\<close>

text \<open>
  \<^verbatim>\<open>Regularizer.from_config\<close> is \<^verbatim>\<open>cls(**config)\<close>: the configuration is passed as
  keyword parameters. Python rejects a keyword that the callee does not accept before it
  runs the body, gives a parameter that is absent its default, and fails when a parameter
  without default is absent. The coefficients of the model are numbers, so a string where
  a number is expected is an error of its own.
\<close>

definition unexpected_keyword :: "string list \<Rightarrow> kwargs \<Rightarrow> string option" where
  "unexpected_keyword params kw =
     (case filter (\<lambda>n. n \<notin> set params) (map fst kw) of [] \<Rightarrow> None | n # _ \<Rightarrow> Some n)"

definition float_argument :: "kwargs \<Rightarrow> string \<Rightarrow> real option \<Rightarrow> error + real" where
  "float_argument kw name dflt =
     (case map_of kw name of
        Some (PyFloat v) \<Rightarrow> Inr v
      | Some (PyStr s) \<Rightarrow> Inl (NotANumber name)
      | None \<Rightarrow> (case dflt of Some d \<Rightarrow> Inr d | None \<Rightarrow> Inl (MissingArgument name)))"

type_synonym constructor = "kwargs \<Rightarrow> error + regularizer"

definition call0 :: "regularizer \<Rightarrow> constructor" where
  "call0 f kw =
     (case unexpected_keyword [] kw of
        Some n \<Rightarrow> Inl (UnexpectedKeyword n)
      | None \<Rightarrow> Inr f)"

definition call1 :: "string \<Rightarrow> real option \<Rightarrow> (real \<Rightarrow> regularizer) \<Rightarrow> constructor" where
  "call1 p1 d1 f kw =
     (case unexpected_keyword [p1] kw of
        Some n \<Rightarrow> Inl (UnexpectedKeyword n)
      | None \<Rightarrow>
          (case float_argument kw p1 d1 of
             Inl e \<Rightarrow> Inl e
           | Inr a \<Rightarrow> Inr (f a)))"

definition call2 ::
    "string \<Rightarrow> real option \<Rightarrow> string \<Rightarrow> real option \<Rightarrow> (real \<Rightarrow> real \<Rightarrow> regularizer) \<Rightarrow> constructor" where
  "call2 p1 d1 p2 d2 f kw =
     (case unexpected_keyword [p1, p2] kw of
        Some n \<Rightarrow> Inl (UnexpectedKeyword n)
      | None \<Rightarrow>
          (case float_argument kw p1 d1 of
             Inl e \<Rightarrow> Inl e
           | Inr a \<Rightarrow>
               (case float_argument kw p2 d2 of
                  Inl e \<Rightarrow> Inl e
                | Inr b \<Rightarrow> Inr (f a b))))"

subsection \<open>The functions of the module\<close>

text \<open>
  The module defines \<^verbatim>\<open>l1\<close> and \<^verbatim>\<open>l2\<close> twice: first under the comment
  \<^verbatim>\<open># Aliases.\<close>, returning an \<^verbatim>\<open>L1L2\<close>, and again at its end, returning a
  \<^verbatim>\<open>WeightRegularizer\<close>. The names \<open>l1\<close> and \<open>l2\<close> are the fields of \<open>L1L2\<close> here, so
  the first pair is \<open>alias_l1\<close>, \<open>alias_l2\<close> and the second \<open>legacy_l1\<close>, \<open>legacy_l2\<close>.
  A parameter that a call leaves out has the default of the callee's signature, which is
  \<^verbatim>\<open>0.\<close> for both coefficients of the three classes.
\<close>

definition alias_l1 :: "real \<Rightarrow> L1L2" where
  "alias_l1 l = L1L2_init l 0"

definition alias_l2 :: "real \<Rightarrow> L1L2" where
  "alias_l2 l = L1L2_init 0 l"

definition l1_l2 :: "real \<Rightarrow> real \<Rightarrow> L1L2" where
  "l1_l2 a b = L1L2_init a b"

definition legacy_l1 :: "real \<Rightarrow> WeightRegularizer" where
  "legacy_l1 l = WeightRegularizer_init l 0"

definition legacy_l2 :: "real \<Rightarrow> WeightRegularizer" where
  "legacy_l2 l = WeightRegularizer_init 0 l"

definition l1l2 :: "real \<Rightarrow> real \<Rightarrow> WeightRegularizer" where
  "l1l2 a b = WeightRegularizer_init a b"

definition activity_l1 :: "real \<Rightarrow> ActivityRegularizer" where
  "activity_l1 l = ActivityRegularizer_init l 0"

definition activity_l2 :: "real \<Rightarrow> ActivityRegularizer" where
  "activity_l2 l = ActivityRegularizer_init 0 l"

definition activity_l1l2 :: "real \<Rightarrow> real \<Rightarrow> ActivityRegularizer" where
  "activity_l1l2 a b = ActivityRegularizer_init a b"

subsection \<open>The namespace of the module\<close>

text \<open>
  \<^verbatim>\<open>deserialize\<close> passes \<^verbatim>\<open>globals()\<close> as the registry: every name of the module's
  namespace, not only the classes. A name is bound to a class or a function of this module
  that constructs a regularizer (kept as what a call with keyword parameters does), to one
  of the three other functions of the module, to a function imported from elsewhere, or to
  an object that cannot be called (a module, a feature of \<^verbatim>\<open>__future__\<close>, a string).
\<close>

datatype module_object =
    Constructor constructor
  | Function_serialize
  | Function_deserialize
  | Function_get
  | Imported_function string
  | Not_callable

text \<open>
  The names that the interpreter binds before it runs the module, as Python 3 does; none
  of their values can be called.
\<close>

definition interpreter_bindings :: "(string \<times> module_object) list" where
  "interpreter_bindings =
     [(''__name__'', Not_callable),
      (''__doc__'', Not_callable),
      (''__package__'', Not_callable),
      (''__loader__'', Not_callable),
      (''__spec__'', Not_callable),
      (''__file__'', Not_callable),
      (''__cached__'', Not_callable),
      (''__builtins__'', Not_callable)]"

text \<open>
  Running the module binds its names from top to bottom, and a later binding of a name
  replaces the earlier one. \<open>module_bindings\<close> lists every \<^verbatim>\<open>import\<close>, \<^verbatim>\<open>class\<close> and
  \<^verbatim>\<open>def\<close> statement at the top level of the file, in the order of the file.
\<close>

definition module_bindings :: "(string \<times> module_object) list" where
  "module_bindings =
     [(''absolute_import'', Not_callable),
      (''division'', Not_callable),
      (''print_function'', Not_callable),
      (''six'', Not_callable),
      (''K'', Not_callable),
      (''serialize_keras_object'', Imported_function ''serialize_keras_object''),
      (''deserialize_keras_object'', Imported_function ''deserialize_keras_object''),
      (''Regularizer'', Constructor (call0 Regularizer_instance)),
      (''L1L2'',
         Constructor (call2 ''l1'' (Some 0) ''l2'' (Some 0) (\<lambda>a b. L1L2_instance (L1L2_init a b)))),
      (''l1'', Constructor (call1 ''l'' (Some 0.01) (\<lambda>l. L1L2_instance (alias_l1 l)))),
      (''l2'', Constructor (call1 ''l'' (Some 0.01) (\<lambda>l. L1L2_instance (alias_l2 l)))),
      (''l1_l2'',
         Constructor (call2 ''l1'' (Some 0.01) ''l2'' (Some 0.01) (\<lambda>a b. L1L2_instance (l1_l2 a b)))),
      (''serialize'', Function_serialize),
      (''deserialize'', Function_deserialize),
      (''get'', Function_get),
      (''EigenvalueRegularizer'',
         Constructor
           (call1 ''k'' None (\<lambda>k0. EigenvalueRegularizer_instance (EigenvalueRegularizer_init k0)))),
      (''WeightRegularizer'',
         Constructor
           (call2 ''l1'' (Some 0) ''l2'' (Some 0)
              (\<lambda>a b. WeightRegularizer_instance (WeightRegularizer_init a b)))),
      (''ActivityRegularizer'',
         Constructor
           (call2 ''l1'' (Some 0) ''l2'' (Some 0)
              (\<lambda>a b. ActivityRegularizer_instance (ActivityRegularizer_init a b)))),
      (''l1'', Constructor (call1 ''l'' (Some 0.01) (\<lambda>l. WeightRegularizer_instance (legacy_l1 l)))),
      (''l2'', Constructor (call1 ''l'' (Some 0.01) (\<lambda>l. WeightRegularizer_instance (legacy_l2 l)))),
      (''l1l2'',
         Constructor
           (call2 ''l1'' (Some 0.01) ''l2'' (Some 0.01) (\<lambda>a b. WeightRegularizer_instance (l1l2 a b)))),
      (''activity_l1'',
         Constructor (call1 ''l'' (Some 0.01) (\<lambda>l. ActivityRegularizer_instance (activity_l1 l)))),
      (''activity_l2'',
         Constructor (call1 ''l'' (Some 0.01) (\<lambda>l. ActivityRegularizer_instance (activity_l2 l)))),
      (''activity_l1l2'',
         Constructor
           (call2 ''l1'' (Some 0.01) ''l2'' (Some 0.01)
              (\<lambda>a b. ActivityRegularizer_instance (activity_l1l2 a b))))]"

definition globals :: "string \<rightharpoonup> module_object" where
  "globals =
     fold (\<lambda>(name, obj) namespace. namespace(name \<mapsto> obj))
       (interpreter_bindings @ module_bindings) Map.empty"

subsection \<open>Calling an object of the namespace\<close>

text \<open>
  The registry may hand back \<^verbatim>\<open>get\<close> itself, and \<^verbatim>\<open>get\<close> of a string goes through the
  registry again, this time with no keyword parameters. With no keyword parameters no
  function of the module gets past the binding of its parameters, so the recursion ends
  there. It is written out in two steps: \<open>call_without_keywords\<close> is a call with no
  keyword parameters, and \<open>get_of_string\<close> is what \<^verbatim>\<open>get\<close> returns for a string.

  Modelled from the spec: the two imported helpers are not part of this file, and neither
  are the names of their parameters. A call through the registry gives them floats and
  strings at most, which is neither an instance with a configuration nor a configuration,
  and they raise.
\<close>

fun call_without_keywords :: "module_object \<Rightarrow> error + regularizer" where
  "call_without_keywords (Constructor c) = c []"
| "call_without_keywords Function_serialize = Inl (MissingArgument ''regularizer'')"
| "call_without_keywords Function_deserialize = Inl (MissingArgument ''config'')"
| "call_without_keywords Function_get = Inl (MissingArgument ''identifier'')"
| "call_without_keywords (Imported_function name) = Inl (HelperError name)"
| "call_without_keywords Not_callable = Inl NotCallable"

definition get_of_string :: "string \<Rightarrow> error + regularizer" where
  "get_of_string s =
     (case globals s of
        None \<Rightarrow> Inl (UnknownObject ''regularizer'' s)
      | Some obj \<Rightarrow> call_without_keywords obj)"

text \<open>
  A call with keyword parameters. The values of the parameters are floats and strings.
  Python binds the parameters of a function of the module as it does for a class.
  \<^verbatim>\<open>get(identifier)\<close> of a string is \<open>get_of_string\<close>; a float is neither \<^verbatim>\<open>None\<close>, a
  mapping, a string nor callable, so \<^verbatim>\<open>get\<close> raises its \<open>ValueError\<close>.

  Modelled from the spec: \<^verbatim>\<open>serialize(regularizer)\<close> hands its parameter to
  \<^verbatim>\<open>serialize_keras_object\<close>, and a float or a string has no parameter mapping of its
  own, no more than an instance without \<^verbatim>\<open>get_config\<close>.
  \<^verbatim>\<open>deserialize(config, custom_objects=None)\<close> hands its parameter to
  \<^verbatim>\<open>deserialize_keras_object\<close>, which the spec defines on configuration mappings: it
  looks \<^verbatim>\<open>class_name\<close> up in its parameter, and a float or a string is no mapping.
\<close>

fun call_object :: "module_object \<Rightarrow> kwargs \<Rightarrow> error + regularizer" where
  "call_object (Constructor c) kw = c kw"
| "call_object Function_serialize kw =
     (case unexpected_keyword [''regularizer''] kw of
        Some n \<Rightarrow> Inl (UnexpectedKeyword n)
      | None \<Rightarrow>
          (case map_of kw ''regularizer'' of
             None \<Rightarrow> Inl (MissingArgument ''regularizer'')
           | Some v \<Rightarrow> Inl (AttributeError ''get_config'')))"
| "call_object Function_deserialize kw =
     (case unexpected_keyword [''config'', ''custom_objects''] kw of
        Some n \<Rightarrow> Inl (UnexpectedKeyword n)
      | None \<Rightarrow>
          (case map_of kw ''config'' of
             None \<Rightarrow> Inl (MissingArgument ''config'')
           | Some v \<Rightarrow> Inl NotAMapping))"
| "call_object Function_get kw =
     (case unexpected_keyword [''identifier''] kw of
        Some n \<Rightarrow> Inl (UnexpectedKeyword n)
      | None \<Rightarrow>
          (case map_of kw ''identifier'' of
             None \<Rightarrow> Inl (MissingArgument ''identifier'')
           | Some (PyStr s) \<Rightarrow> get_of_string s
           | Some (PyFloat v) \<Rightarrow>
               Inl (ValueErrorOnFloat ''Could not interpret regularizer identifier: '' v)))"
| "call_object (Imported_function name) kw = Inl (HelperError name)"
| "call_object Not_callable kw = Inl NotCallable"

subsection \<open>deserialize\<close>

text \<open>
  Modelled from the spec: \<^verbatim>\<open>deserialize_keras_object\<close> lives in
  \<^verbatim>\<open>keras/utils/generic_utils.py\<close>, which is not part of this file. By the spec it looks
  \<^verbatim>\<open>class_name\<close> up first among the user-supplied overrides, then in the registry, fails
  with a not-found error naming the printable module name if it is absent from both, and
  then constructs the variant by passing \<^verbatim>\<open>config\<close> as keyword parameters. An override
  is a class or function of the user, kept as what a call with keyword parameters does.
\<close>

definition deserialize_keras_object ::
    "serialized \<Rightarrow> (string \<rightharpoonup> module_object) \<Rightarrow> (string \<rightharpoonup> constructor) option \<Rightarrow> string
     \<Rightarrow> error + regularizer" where
  "deserialize_keras_object cfg module_objects custom_objects printable_module_name =
     (case (case custom_objects of None \<Rightarrow> None | Some overrides \<Rightarrow> overrides (class_name cfg)) of
        Some cls \<Rightarrow> cls (config cfg)
      | None \<Rightarrow>
          (case module_objects (class_name cfg) of
             Some obj \<Rightarrow> call_object obj (config cfg)
           | None \<Rightarrow> Inl (UnknownObject printable_module_name (class_name cfg))))"

definition deserialize :: "serialized \<Rightarrow> (string \<rightharpoonup> constructor) option \<Rightarrow> error + regularizer" where
  "deserialize cfg custom_objects =
     deserialize_keras_object cfg globals custom_objects ''regularizer''"

subsection \<open>get\<close>

text \<open>
  An identifier is \<^verbatim>\<open>None\<close>, a dictionary, a string, a callable or something else. A
  callable is an instance of a class of this module (each has \<^verbatim>\<open>__call__\<close>) or any other
  callable, known by its name. Of a value that is none of these the model keeps what
  \<^verbatim>\<open>str\<close> makes of it: an integer is printed in decimal, any further value carries its
  text.
\<close>

datatype callable = Instance regularizer | Function string

datatype other_value = IntValue int | Opaque string

datatype ident =
    IdNone
  | IdDict serialized
  | IdStr string
  | IdCallable callable
  | IdOther other_value

fun str_nat :: "nat \<Rightarrow> string" where
  "str_nat n =
     (if n < 10 then [''0123456789'' ! n]
      else str_nat (n div 10) @ [''0123456789'' ! (n mod 10)])"

declare str_nat.simps [simp del]

fun str :: "other_value \<Rightarrow> string" where
  "str (IntValue i) = (if i < 0 then ''-'' @ str_nat (nat (- i)) else str_nat (nat i))"
| "str (Opaque s) = s"

fun get :: "ident \<Rightarrow> error + callable option" where
  "get IdNone = Inr None"
| "get (IdDict d) =
     (case deserialize d None of Inl e \<Rightarrow> Inl e | Inr r \<Rightarrow> Inr (Some (Instance r)))"
| "get (IdStr s) =
     (let cfg = \<lparr>class_name = s, config = []\<rparr>
      in case deserialize cfg None of Inl e \<Rightarrow> Inl e | Inr r \<Rightarrow> Inr (Some (Instance r)))"
| "get (IdCallable c) = Inr (Some c)"
| "get (IdOther v) = Inl (ValueError (''Could not interpret regularizer identifier: '' @ str v))"

section \<open>Statements of the specification\<close>

text \<open>
  The round trip of the spec: \<^verbatim>\<open>deserialize(serialize(r))\<close>, with no overrides. An error
  of \<^verbatim>\<open>serialize\<close> ends it.
\<close>

definition round_trip :: "regularizer \<Rightarrow> error + regularizer" where
  "round_trip r = (case serialize r of Inl e \<Rightarrow> Inl e | Inr c \<Rightarrow> deserialize c None)"

text \<open>
  The eigenvalue penalty in the words of the spec. \<open>gram x\<close> is \<open>C\<close>, the product of the
  transpose of \<open>x\<close> with \<open>x\<close>. \<open>power_method n C\<close> multiplies the all-ones column vector
  \<open>n\<close> times by \<open>C\<close>. \<open>inner u v\<close> is the product of the transpose of the column vector
  \<open>u\<close> with the column vector \<open>v\<close>, a number.
\<close>

definition gram :: "tensor \<Rightarrow> tensor" where
  "gram x = K_dot (K_transpose x) x"

definition power_method :: "nat \<Rightarrow> tensor \<Rightarrow> tensor" where
  "power_method n C = ((K_dot C) ^^ n) (K_ones [nrows C, 1])"

definition inner :: "tensor \<Rightarrow> tensor \<Rightarrow> real" where
  "inner u v = sum_list (map (\<lambda>i. entry u i 0 * entry v i 0) [0..<nrows u])"

text \<open>
  \<open>spec_eigenvalue_penalty\<close> follows the sentence of the spec word by word: the quotient
  has the product of \<open>Cv\<close> with itself above and the product of \<open>v\<close> with itself below.
  Where the product of \<open>v\<close> with itself is zero there is no quotient, and the penalty is
  no real number.
\<close>

definition spec_eigenvalue_penalty :: "real \<Rightarrow> tensor \<Rightarrow> real option" where
  "spec_eigenvalue_penalty gain x =
     (let C = gram x;
          v = power_method 9 C;
          Cv = K_dot C v
      in if inner v v = 0 then None else Some (gain * sqrt (inner Cv Cv / inner v v)))"

text \<open>
  \<open>rayleigh_penalty\<close> differs from it in one place: above the line stands the product of
  \<open>Cv\<close> with \<open>v\<close>.
\<close>

definition rayleigh_penalty :: "real \<Rightarrow> tensor \<Rightarrow> real option" where
  "rayleigh_penalty gain x =
     (let C = gram x;
          v = power_method 9 C;
          Cv = K_dot C v
      in if inner v v = 0 then None else Some (gain * sqrt (inner Cv v / inner v v)))"

section \<open>Properties\<close>

subsection \<open>The L1L2 penalty\<close>

lemma sum_list_scaled: "sum_list (map (\<lambda>v. c * v) xs) = c * sum_list (xs :: real list)"
  by (induction xs) (simp_all add: distrib_left)

lemma K_sum_scale: "K_sum (scale c t) = c * K_sum t"
  by (simp add: K_sum_def scale_def sum_list_scaled)

text \<open>
  C1. For non-negative coefficients \<open>a\<close> and \<open>b\<close> and every tensor \<open>x\<close>, the L1L2 regularizer
  built from them returns \<open>a * sum (abs x) + b * sum (square x)\<close>. A term whose coefficient
  is zero is skipped: the summands computed are the one of the absolute values if \<open>a\<close> is
  not zero, then the one of the squares if \<open>b\<close> is not zero, and no other. With both
  coefficients zero the result is \<open>0\<close> and nothing was computed.
\<close>

theorem L1L2_call_penalty:
  assumes "0 \<le> a" and "0 \<le> b"
  shows "fst (L1L2_call (L1L2_init a b) x) = a * K_sum (K_abs x) + b * K_sum (K_square x)
       \<and> snd (L1L2_call (L1L2_init a b) x)
           = (if a = 0 then [] else [AbsSum]) @ (if b = 0 then [] else [SquareSum])
       \<and> L1L2_call (L1L2_init 0 0) x = (0, [])"
  by (simp add: L1L2_call_def L1L2_init_def cast_to_floatx_def add_sum_def K_sum_scale Let_def)

theorem L1L2_call_penalty_witness:
  "(0::real) \<le> 2 \<and> (0::real) \<le> 0
   \<and> fst (L1L2_call (L1L2_init 2 0) (Tensor [3] [1, - 2, 3])) = 12
   \<and> snd (L1L2_call (L1L2_init 2 0) (Tensor [3] [1, - 2, 3])) = [AbsSum]"
  using L1L2_call_penalty [of 2 0 "Tensor [3] [1, - 2, 3]"]
  by (simp add: K_sum_def K_abs_def K_square_def)

subsection \<open>Matrices\<close>

text \<open>
  The loop of the power method ignores its counter, so it is an iterated function. The
  shapes of the products are fixed by the shapes of the factors alone. The elements of a
  product and of a transpose are what the rules of matrix algebra say, whatever the
  elements of the factors are.
\<close>

lemma fold_ignoring_index: "fold (\<lambda>n v. f v) xs a = (f ^^ length xs) a"
  by (induction xs arbitrary: a) (simp_all add: funpow_swap1)

lemma shape_K_dot: "shape (K_dot a b) = [nrows a, ncols b]"
  by (simp add: K_dot_def)

lemma nrows_K_dot: "nrows (K_dot a b) = nrows a"
  by (simp add: nrows_def K_dot_def)

lemma ncols_K_dot: "ncols (K_dot a b) = ncols b"
  by (simp add: ncols_def K_dot_def)

lemma ncols_K_ones: "ncols (K_ones [n, 1]) = 1"
  by (simp add: ncols_def K_ones_def)

lemma ncols_iterate: "ncols ((K_dot C ^^ n) w) = ncols w"
  by (induction n) (simp_all add: ncols_K_dot)

lemma nrows_K_transpose: "nrows (K_transpose t) = ncols t"
  by (simp add: nrows_def K_transpose_def)

lemma ncols_K_transpose: "ncols (K_transpose t) = nrows t"
  by (simp add: ncols_def K_transpose_def)

lemma length_concat_rows:
  "length (concat (map (\<lambda>i. map (f i) [0..<n]) [0..<m])) = m * n"
  by (induction m) simp_all

lemma nth_concat_rows:
  assumes "i < m" and "j < n"
  shows "concat (map (\<lambda>i. map (f i) [0..<n]) [0..<m]) ! (i * n + j) = f i j"
  using assms
proof (induction m)
  case 0
  then show ?case by simp
next
  case (Suc m)
  show ?case
  proof (cases "i < m")
    case True
    have "i * n + j < Suc i * n"
      using Suc.prems(2) by simp
    also have "\<dots> \<le> m * n"
      using True by (intro mult_le_mono1) simp
    finally have "i * n + j < m * n" .
    then show ?thesis
      using Suc.IH [OF True Suc.prems(2)] by (simp add: nth_append length_concat_rows)
  next
    case False
    then have "i = m" using Suc.prems(1) by simp
    then show ?thesis
      using Suc.prems(2) by (simp add: nth_append length_concat_rows)
  qed
qed

lemma entry_K_dot:
  assumes "i < nrows a" and "j < ncols b"
  shows "entry (K_dot a b) i j = sum_list (map (\<lambda>l. entry a i l * entry b l j) [0..<ncols a])"
proof -
  have "entry (K_dot a b) i j = elems (K_dot a b) ! (i * ncols b + j)"
    by (simp add: entry_def ncols_K_dot)
  also have "\<dots> = sum_list (map (\<lambda>l. entry a i l * entry b l j) [0..<ncols a])"
    unfolding K_dot_def tensor.sel
    using nth_concat_rows [OF assms, of "\<lambda>i j. sum_list (map (\<lambda>l. entry a i l * entry b l j) [0..<ncols a])"]
    by simp
  finally show ?thesis .
qed

lemma entry_K_transpose:
  assumes "j < ncols t" and "i < nrows t"
  shows "entry (K_transpose t) j i = entry t i j"
proof -
  have "entry (K_transpose t) j i = elems (K_transpose t) ! (j * nrows t + i)"
    by (simp add: entry_def ncols_K_transpose)
  also have "\<dots> = entry t i j"
    unfolding K_transpose_def tensor.sel
    using nth_concat_rows [OF assms, of "\<lambda>j i. entry t i j"] by simp
  finally show ?thesis .
qed

text \<open>
  The Gram matrix is positive semidefinite: the product of \<open>Cv\<close> with \<open>v\<close> is a sum of
  squares, for every column \<open>v\<close>. So the quotient of the regularizer is never negative,
  and its power \<^verbatim>\<open>0.5\<close> is a square root.
\<close>

lemma sum_list_upt: "sum_list (map f [0..<n]) = (\<Sum>i<n. f i)"
  by (simp add: interv_sum_list_conv_sum_set_nat atLeast0LessThan)

lemma gram_quadratic_form:
  fixes X :: "nat \<Rightarrow> nat \<Rightarrow> real" and V :: "nat \<Rightarrow> real"
  shows "(\<Sum>i<n. (\<Sum>l<n. (\<Sum>r<m. X r i * X r l) * V l) * V i) = (\<Sum>r<m. (\<Sum>i<n. X r i * V i)\<^sup>2)"
proof -
  have "(\<Sum>r<m. (\<Sum>i<n. X r i * V i)\<^sup>2) = (\<Sum>r<m. \<Sum>i<n. \<Sum>l<n. (X r i * V i) * (X r l * V l))"
    by (simp add: power2_eq_square sum_product)
  also have "\<dots> = (\<Sum>i<n. \<Sum>r<m. \<Sum>l<n. (X r i * V i) * (X r l * V l))"
    by (rule sum.swap)
  also have "\<dots> = (\<Sum>i<n. \<Sum>l<n. \<Sum>r<m. (X r i * V i) * (X r l * V l))"
    by (rule sum.cong [OF refl]) (rule sum.swap)
  also have "\<dots> = (\<Sum>i<n. (\<Sum>l<n. (\<Sum>r<m. X r i * X r l) * V l) * V i)"
    by (simp add: sum_distrib_left mult_ac)
  finally show ?thesis by simp
qed

lemma inner_gram_product:
  assumes "ncols v = 1"
  shows "inner (K_dot (gram x) v) v
         = (\<Sum>r<nrows x. (\<Sum>i<ncols x. entry x r i * entry v i 0)\<^sup>2)"
proof -
  let ?n = "ncols x" and ?m = "nrows x"
  have rows: "nrows (gram x) = ?n" and cols: "ncols (gram x) = ?n"
    by (simp_all add: gram_def nrows_K_dot ncols_K_dot nrows_K_transpose)
  have C: "entry (gram x) i l = (\<Sum>r<?m. entry x r i * entry x r l)" if "i < ?n" and "l < ?n" for i l
  proof -
    have "entry (gram x) i l
          = sum_list (map (\<lambda>r. entry (K_transpose x) i r * entry x r l) [0..<?m])"
      using that by (simp add: gram_def entry_K_dot nrows_K_transpose ncols_K_transpose)
    also have "\<dots> = (\<Sum>r<?m. entry (K_transpose x) i r * entry x r l)"
      by (rule sum_list_upt)
    also have "\<dots> = (\<Sum>r<?m. entry x r i * entry x r l)"
      using that(1) by (intro sum.cong refl) (simp add: entry_K_transpose)
    finally show ?thesis .
  qed
  have Cv: "entry (K_dot (gram x) v) i 0 = (\<Sum>l<?n. (\<Sum>r<?m. entry x r i * entry x r l) * entry v l 0)"
    if "i < ?n" for i
  proof -
    have "entry (K_dot (gram x) v) i 0 = (\<Sum>l<?n. entry (gram x) i l * entry v l 0)"
      using that assms by (simp add: entry_K_dot rows cols sum_list_upt)
    also have "\<dots> = (\<Sum>l<?n. (\<Sum>r<?m. entry x r i * entry x r l) * entry v l 0)"
      using that by (intro sum.cong refl) (simp add: C)
    finally show ?thesis .
  qed
  have "inner (K_dot (gram x) v) v = (\<Sum>i<?n. entry (K_dot (gram x) v) i 0 * entry v i 0)"
    by (simp add: inner_def nrows_K_dot rows sum_list_upt)
  also have "\<dots> = (\<Sum>i<?n. (\<Sum>l<?n. (\<Sum>r<?m. entry x r i * entry x r l) * entry v l 0) * entry v i 0)"
    by (intro sum.cong refl) (simp add: Cv)
  also have "\<dots> = (\<Sum>r<?m. (\<Sum>i<?n. entry x r i * entry v i 0)\<^sup>2)"
    by (rule gram_quadratic_form)
  finally show ?thesis .
qed

lemma inner_gram_product_nonneg:
  assumes "ncols v = 1"
  shows "0 \<le> inner (K_dot (gram x) v) v"
  by (simp add: inner_gram_product [OF assms] sum_nonneg)

lemma inner_self_nonneg: "0 \<le> inner v v"
  by (simp add: inner_def sum_list_upt sum_nonneg)

subsection \<open>The eigenvalue penalty\<close>

text \<open>
  Every vector of the iteration is a column, and the two products of the quotient are
  matrices with one element, the inner products of the columns.
\<close>

lemma entry_K_transpose_column:
  assumes "ncols u = 1" and "l < nrows u"
  shows "entry (K_transpose u) 0 l = entry u l 0"
  using assms by (simp add: entry_K_transpose)

lemma K_dot_transpose_columns:
  assumes "ncols u = 1" and "ncols v = 1"
  shows "K_dot (K_transpose u) v = Tensor [1, 1] [inner u v]"
proof -
  have products: "map (\<lambda>l. entry (K_transpose u) 0 l * entry v l 0) [0..<nrows u]
        = map (\<lambda>l. entry u l 0 * entry v l 0) [0..<nrows u]"
    using assms(1) by (simp add: entry_K_transpose_column)
  have "K_dot (K_transpose u) v
        = Tensor [1, 1] [sum_list (map (\<lambda>l. entry (K_transpose u) 0 l * entry v l 0) [0..<nrows u])]"
    using assms(2) by (simp add: K_dot_def nrows_K_transpose ncols_K_transpose assms(1))
  then show ?thesis
    by (simp only: products inner_def)
qed

lemma quotient_sum:
  assumes "0 \<le> a" and "0 \<le> b"
  shows "(case (case tensor_div (Tensor [1, 1] [a]) (Tensor [1, 1] [b]) of
                  None \<Rightarrow> None
                | Some eigenval \<Rightarrow>
                    (case tensor_sqrt eigenval of
                       None \<Rightarrow> None
                     | Some powered \<Rightarrow> Some (times_scalar powered c))) of
            None \<Rightarrow> None
          | Some r \<Rightarrow> Some (K_sum r))
         = (if b = 0 then None else Some (c * sqrt (a / b)))"
proof -
  have "\<not> a / b < 0"
    using assms by (simp add: not_less)
  then show ?thesis
    by (simp add: K_sum_def times_scalar_def tensor_sqrt_def tensor_div_def)
qed

lemma EigenvalueRegularizer_call_rank2:
  assumes "K_ndim x = 2"
  shows "EigenvalueRegularizer_call self x = Inr (rayleigh_penalty (k self) x)"
proof -
  let ?C = "K_dot (K_transpose x) x"
  let ?v = "(K_dot ?C ^^ 9) (K_ones [ncols x, 1])"
  have v: "fold (\<lambda>n v. K_dot ?C v) [0..<9 - 1] (K_dot ?C (K_ones [ncols x, 1])) = ?v"
    by (simp add: fold_ignoring_index funpow_swap1 eval_nat_numeral)
  have c1: "ncols ?v = 1"
    by (simp only: ncols_iterate ncols_K_ones)
  have c2: "ncols (K_dot ?C ?v) = 1"
    by (simp only: ncols_K_dot c1)
  have pm: "power_method 9 ?C = ?v"
    by (simp add: power_method_def nrows_K_dot nrows_K_transpose)
  have above: "0 \<le> inner (K_dot ?C ?v) ?v"
    using inner_gram_product_nonneg [OF c1, of x] by (simp only: gram_def)
  have below: "0 \<le> inner ?v ?v"
    by (rule inner_self_nonneg)
  show ?thesis
    using assms
    by (simp only: EigenvalueRegularizer_call_def Let_def K_shape_def shape_K_dot list.case
        nrows_K_transpose v K_dot_transpose_columns [OF c2 c1] K_dot_transpose_columns [OF c1 c1]
        quotient_sum [OF above below] rayleigh_penalty_def gram_def pm)
      simp
qed

text \<open>Small matrices, for the examples.\<close>

lemma K_transpose_1x1: "K_transpose (Tensor [Suc 0, Suc 0] [a]) = Tensor [Suc 0, Suc 0] [a]"
  by (simp add: K_transpose_def nrows_def ncols_def entry_def)

lemma K_dot_1x1:
  "K_dot (Tensor [Suc 0, Suc 0] [a]) (Tensor [Suc 0, Suc 0] [b]) = Tensor [Suc 0, Suc 0] [a * b]"
  by (simp add: K_dot_def nrows_def ncols_def entry_def)

lemma inner_1x1: "inner (Tensor [Suc 0, Suc 0] [a]) (Tensor [Suc 0, Suc 0] [b]) = a * b"
  by (simp add: inner_def nrows_def ncols_def entry_def)

lemma K_ones_1x1: "K_ones [Suc 0, Suc 0] = Tensor [Suc 0, Suc 0] [1]"
  by (simp add: K_ones_def)

lemma iterate_1x1:
  "(K_dot (Tensor [Suc 0, Suc 0] [c]) ^^ n) (Tensor [Suc 0, Suc 0] [w])
   = Tensor [Suc 0, Suc 0] [c ^ n * w]"
  by (induction n) (simp_all add: K_dot_1x1)

lemma power_method_1x1: "power_method n (Tensor [Suc 0, Suc 0] [c]) = Tensor [Suc 0, Suc 0] [c ^ n]"
  by (simp add: power_method_def nrows_def K_ones_1x1 iterate_1x1)

lemma gram_2x2:
  "gram (Tensor [2, 2] [a, b, c, d])
   = Tensor [2, 2] [a * a + c * c, a * b + c * d, b * a + d * c, b * b + d * d]"
  by (simp add: gram_def K_dot_def K_transpose_def nrows_def ncols_def entry_def numeral_2_eq_2)

lemma gram_1x2:
  "gram (Tensor [Suc 0, 2] [a, b]) = Tensor [2, 2] [a * a, a * b, b * a, b * b]"
  by (simp add: gram_def K_dot_def K_transpose_def nrows_def ncols_def entry_def numeral_2_eq_2)

lemma K_dot_2x2_2x1:
  "K_dot (Tensor [2, 2] [a, b, c, d]) (Tensor [2, Suc 0] [e, f])
   = Tensor [2, Suc 0] [a * e + b * f, c * e + d * f]"
  by (simp add: K_dot_def nrows_def ncols_def entry_def numeral_2_eq_2)

lemma inner_2x1: "inner (Tensor [2, Suc 0] [a, b]) (Tensor [2, Suc 0] [c, d]) = a * c + b * d"
  by (simp add: inner_def nrows_def ncols_def entry_def numeral_2_eq_2)

lemma K_ones_2x1: "K_ones [2, Suc 0] = Tensor [2, Suc 0] [1, 1]"
  by (simp add: K_ones_def numeral_2_eq_2)

lemma power_method_2x2:
  "power_method n (Tensor [2, 2] [a, b, c, d])
   = (K_dot (Tensor [2, 2] [a, b, c, d]) ^^ n) (Tensor [2, Suc 0] [1, 1])"
  by (simp add: power_method_def nrows_def K_ones_2x1)

lemma sqrt_16: "sqrt 16 = 4"
  using real_sqrt_abs [of 4] by simp

lemma funpow_nine: "(f ^^ 9) x = f (f (f (f (f (f (f (f (f x))))))))"
  by (simp add: eval_nat_numeral)

lemma power_method_example:
  "power_method 9 (Tensor [2, 2] [1, 1, 1, 2]) = Tensor [2, Suc 0] [4181, 6765]"
  by (simp add: power_method_2x2 funpow_nine K_dot_2x2_2x1)

lemma power_method_zero_example:
  "power_method 9 (Tensor [2, 2] [1, - 1, - 1, 1]) = Tensor [2, Suc 0] [0, 0]"
  by (simp add: power_method_2x2 funpow_nine K_dot_2x2_2x1)

text \<open>
  C2, as the module computes it. For every tensor \<open>x\<close> of rank 2 the eigenvalue regularizer
  with gain \<open>gain\<close> computes the Gram matrix \<open>C\<close> of \<open>x\<close>, multiplies the all-ones column
  vector nine times by \<open>C\<close> (once, then eight times in the loop) to obtain \<open>v\<close>, forms \<open>Cv\<close>
  by one more multiplication, and returns \<open>gain\<close> times the square root of the quotient
  of the product of \<open>Cv\<close> with \<open>v\<close> by the product of \<open>v\<close> with itself. Where the product
  of \<open>v\<close> with itself is zero the quotient is \<^verbatim>\<open>0/0\<close> and the float returned is no real
  number.
\<close>

theorem EigenvalueRegularizer_call_value:
  assumes "K_ndim x = 2"
  shows "EigenvalueRegularizer_call (EigenvalueRegularizer_init gain) x
           = Inr (rayleigh_penalty gain x)"
  using assms by (simp add: EigenvalueRegularizer_call_rank2 EigenvalueRegularizer_init_def)

theorem EigenvalueRegularizer_call_value_witness:
  "K_ndim (Tensor [2, 2] [1, 1, 0, 1]) = 2
   \<and> EigenvalueRegularizer_call (EigenvalueRegularizer_init 3) (Tensor [2, 2] [1, 1, 0, 1])
       = Inr (Some (3 * sqrt (165580141 / 63245986)))
   \<and> K_ndim (Tensor [1, 2] [1, - 1]) = 2
   \<and> EigenvalueRegularizer_call (EigenvalueRegularizer_init 3) (Tensor [1, 2] [1, - 1]) = Inr None"
  using EigenvalueRegularizer_call_value [of "Tensor [2, 2] [1, 1, 0, 1]" 3]
        EigenvalueRegularizer_call_value [of "Tensor [1, 2] [1, - 1]" 3]
  by (simp add: K_ndim_def rayleigh_penalty_def gram_2x2 gram_1x2 power_method_example
      power_method_zero_example K_dot_2x2_2x1 inner_2x1)

text \<open>
  C2, as the spec states it, with the product of \<open>Cv\<close> with itself above the line, fails.
  On the matrix with the single element \<open>2\<close> and gain \<open>1\<close>, \<open>C\<close> is \<open>4\<close>, \<open>v\<close> is \<open>4 ^ 9\<close>
  and \<open>Cv\<close> is \<open>4 ^ 10\<close>: the module returns \<open>sqrt 4 = 2\<close>, the stated formula gives
  \<open>sqrt 16 = 4\<close>.
\<close>

theorem spec_eigenvalue_penalty_counterexample:
  "K_ndim (Tensor [1, 1] [2]) = 2
   \<and> EigenvalueRegularizer_call (EigenvalueRegularizer_init 1) (Tensor [1, 1] [2]) = Inr (Some 2)
   \<and> spec_eigenvalue_penalty 1 (Tensor [1, 1] [2]) = Some 4
   \<and> EigenvalueRegularizer_call (EigenvalueRegularizer_init 1) (Tensor [1, 1] [2])
       \<noteq> Inr (spec_eigenvalue_penalty 1 (Tensor [1, 1] [2]))"
  by (simp add: EigenvalueRegularizer_call_rank2 K_ndim_def EigenvalueRegularizer_init_def
      rayleigh_penalty_def spec_eigenvalue_penalty_def gram_def K_transpose_1x1 K_dot_1x1
      power_method_1x1 inner_1x1 sqrt_16)

text \<open>
  C6. The eigenvalue regularizer fails with the \<open>ValueError\<close> of the rank check exactly on
  the tensors whose rank is not 2, and the message of that error names the requirement of
  rank 2.
\<close>

theorem EigenvalueRegularizer_rank_check:
  "(EigenvalueRegularizer_call self x = Inl (ValueError rank_message)) = (K_ndim x \<noteq> 2)
   \<and> rank_message = ''EigenvalueRegularizer is only available for tensors of rank 2.''"
proof -
  have "EigenvalueRegularizer_call self x = Inl (ValueError rank_message)" if "K_ndim x \<noteq> 2"
    using that by (simp add: EigenvalueRegularizer_call_def)
  moreover have "EigenvalueRegularizer_call self x \<noteq> Inl (ValueError rank_message)" if "K_ndim x = 2"
    using that by (simp add: EigenvalueRegularizer_call_rank2)
  ultimately show ?thesis
    by (auto simp add: rank_message_def)
qed

theorem EigenvalueRegularizer_rank_check_witness:
  "EigenvalueRegularizer_call (EigenvalueRegularizer_init 1) (Tensor [3] [1, 2, 3])
     = Inl (ValueError rank_message)
   \<and> EigenvalueRegularizer_call (EigenvalueRegularizer_init 1) (Tensor [2, 1] [3, 4])
       \<noteq> Inl (ValueError rank_message)"
  using EigenvalueRegularizer_rank_check [of "EigenvalueRegularizer_init 1" "Tensor [3] [1, 2, 3]"]
        EigenvalueRegularizer_rank_check [of "EigenvalueRegularizer_init 1" "Tensor [2, 1] [3, 4]"]
  by (simp add: K_ndim_def)

subsection \<open>Resolving identifiers\<close>

text \<open>
  The recursion through the registry, written out in two steps in the definitions, is the
  recursion of the program: a call with an empty list of keyword parameters is
  \<open>call_without_keywords\<close>, and \<open>get_of_string\<close> is \<open>deserialize\<close> of the configuration
  that \<^verbatim>\<open>get\<close> builds from a string.
\<close>

lemma call_object_no_keywords: "call_object obj [] = call_without_keywords obj"
  by (cases obj) (simp_all add: unexpected_keyword_def)

lemma deserialize_no_parameters:
  "deserialize \<lparr>class_name = s, config = []\<rparr> None = get_of_string s"
  by (simp add: deserialize_def deserialize_keras_object_def get_of_string_def
      call_object_no_keywords split: option.split)

lemmas namespace_defs = globals_def interpreter_bindings_def module_bindings_def

lemma globals_L1L2:
  "globals ''L1L2''
   = Some (Constructor (call2 ''l1'' (Some 0) ''l2'' (Some 0) (\<lambda>a b. L1L2_instance (L1L2_init a b))))"
  by (simp add: namespace_defs)

lemma globals_EigenvalueRegularizer:
  "globals ''EigenvalueRegularizer''
   = Some (Constructor (call1 ''k'' None
             (\<lambda>k0. EigenvalueRegularizer_instance (EigenvalueRegularizer_init k0))))"
  by (simp add: namespace_defs)

lemma globals_l1_l2:
  "globals ''l1_l2''
   = Some (Constructor (call2 ''l1'' (Some 0.01) ''l2'' (Some 0.01) (\<lambda>a b. L1L2_instance (l1_l2 a b))))"
  by (simp add: namespace_defs)

lemma globals_l1:
  "globals ''l1''
   = Some (Constructor (call1 ''l'' (Some 0.01) (\<lambda>l. WeightRegularizer_instance (legacy_l1 l))))"
  by (simp add: namespace_defs)

lemma globals_l2:
  "globals ''l2''
   = Some (Constructor (call1 ''l'' (Some 0.01) (\<lambda>l. WeightRegularizer_instance (legacy_l2 l))))"
  by (simp add: namespace_defs)

lemma globals_get: "globals ''get'' = Some Function_get"
  by (simp add: namespace_defs)

lemma globals_no_such_name: "globals ''no_such_name'' = None"
  by (simp add: namespace_defs)

lemma globals_not_a_real_regularizer: "globals ''not_a_real_regularizer'' = None"
  by (simp add: namespace_defs)

text \<open>
  C3. \<open>get\<close> returns \<^verbatim>\<open>None\<close> for \<^verbatim>\<open>None\<close>, which is not an instance of the base class;
  deserializes a mapping, that is, looks its class name up in the namespace of the module,
  fails with the not-found error if it is absent, and else calls what it found with the
  parameters of the mapping; treats a string as the mapping with that class name and no
  parameters; returns a callable as it is; and fails on any other value with a
  \<open>ValueError\<close> whose message ends with the text of the value.
\<close>

theorem get_resolution:
  "get IdNone = Inr None
   \<and> get IdNone \<noteq> Inr (Some (Instance Regularizer_instance))
   \<and> get (IdDict d) = (case deserialize d None of Inl e \<Rightarrow> Inl e | Inr r \<Rightarrow> Inr (Some (Instance r)))
   \<and> get (IdDict d) =
        (case globals (class_name d) of
           None \<Rightarrow> Inl (UnknownObject ''regularizer'' (class_name d))
         | Some obj \<Rightarrow>
             (case call_object obj (config d) of
                Inl e \<Rightarrow> Inl e
              | Inr r \<Rightarrow> Inr (Some (Instance r))))
   \<and> get (IdStr s) = get (IdDict \<lparr>class_name = s, config = []\<rparr>)
   \<and> get (IdStr s) =
        (case globals s of
           None \<Rightarrow> Inl (UnknownObject ''regularizer'' s)
         | Some obj \<Rightarrow>
             (case call_object obj [] of
                Inl e \<Rightarrow> Inl e
              | Inr r \<Rightarrow> Inr (Some (Instance r))))
   \<and> get (IdCallable c) = Inr (Some c)
   \<and> get (IdOther v) = Inl (ValueError (''Could not interpret regularizer identifier: '' @ str v))"
  by (simp add: deserialize_def deserialize_keras_object_def split: option.split)

theorem get_resolution_witness:
  "get (IdDict \<lparr>class_name = ''L1L2'', config = [(''l1'', PyFloat 3)]\<rparr>)
     = Inr (Some (Instance (L1L2_instance (L1L2 3 0))))
   \<and> get (IdDict \<lparr>class_name = ''EigenvalueRegularizer'', config = [(''k'', PyFloat 2)]\<rparr>)
       = Inr (Some (Instance (EigenvalueRegularizer_instance (EigenvalueRegularizer 2))))
   \<and> get (IdDict \<lparr>class_name = ''L1L2'', config = [(''k'', PyFloat 2)]\<rparr>)
       = Inl (UnexpectedKeyword ''k'')
   \<and> get (IdDict \<lparr>class_name = ''no_such_name'', config = [(''l1'', PyFloat 3)]\<rparr>)
       = Inl (UnknownObject ''regularizer'' ''no_such_name'')
   \<and> get (IdStr ''l1_l2'') = Inr (Some (Instance (L1L2_instance (L1L2 0.01 0.01))))
   \<and> get (IdStr ''EigenvalueRegularizer'') = Inl (MissingArgument ''k'')
   \<and> get (IdStr ''no_such_name'') = Inl (UnknownObject ''regularizer'' ''no_such_name'')
   \<and> get (IdCallable (Function ''my_penalty'')) = Inr (Some (Function ''my_penalty''))
   \<and> get (IdOther (IntValue 42)) = Inl (ValueError ''Could not interpret regularizer identifier: 42'')"
  using get_resolution [of "\<lparr>class_name = ''L1L2'', config = [(''l1'', PyFloat 3)]\<rparr>" "''l1_l2''"
          "Function ''my_penalty''" "IntValue 42"]
        get_resolution [of "\<lparr>class_name = ''EigenvalueRegularizer'', config = [(''k'', PyFloat 2)]\<rparr>"
          "''EigenvalueRegularizer''"]
        get_resolution [of "\<lparr>class_name = ''L1L2'', config = [(''k'', PyFloat 2)]\<rparr>" "''no_such_name''"]
        get_resolution [of "\<lparr>class_name = ''no_such_name'', config = [(''l1'', PyFloat 3)]\<rparr>"]
  by (simp add: globals_L1L2 globals_EigenvalueRegularizer globals_l1_l2 globals_no_such_name
      call2_def call1_def unexpected_keyword_def float_argument_def L1L2_init_def l1_l2_def
      EigenvalueRegularizer_init_def cast_to_floatx_def str_nat.simps)

text \<open>
  C7. \<open>deserialize\<close> of a configuration whose class name is neither among the overrides
  nor in the registry fails with the not-found error that names \<open>regularizer\<close>.
\<close>

theorem deserialize_unknown_class:
  assumes "(case custom_objects of None \<Rightarrow> None | Some overrides \<Rightarrow> overrides (class_name cfg)) = None"
      and "globals (class_name cfg) = None"
  shows "deserialize cfg custom_objects = Inl (UnknownObject ''regularizer'' (class_name cfg))"
  using assms by (simp add: deserialize_def deserialize_keras_object_def)

theorem deserialize_unknown_class_witness:
  "deserialize \<lparr>class_name = ''not_a_real_regularizer'', config = []\<rparr> None
     = Inl (UnknownObject ''regularizer'' ''not_a_real_regularizer'')"
  using deserialize_unknown_class
      [where custom_objects = None and cfg = "\<lparr>class_name = ''not_a_real_regularizer'', config = []\<rparr>"]
  by (simp add: globals_not_a_real_regularizer)

text \<open>
  A name of the namespace that is no regularizer is found all the same: \<^verbatim>\<open>get\<close> is
  called with the parameters of the configuration, and a module cannot be called.
\<close>

lemma deserialize_through_get:
  "deserialize \<lparr>class_name = ''get'', config = [(''identifier'', PyStr ''L1L2'')]\<rparr> None
     = Inr (L1L2_instance (L1L2 0 0))
   \<and> deserialize \<lparr>class_name = ''get'', config = [(''identifier'', PyStr ''l2'')]\<rparr> None
     = Inr (WeightRegularizer_instance (legacy_l2 0.01))
   \<and> deserialize \<lparr>class_name = ''get'', config = [(''identifier'', PyStr ''get'')]\<rparr> None
     = Inl (MissingArgument ''identifier'')
   \<and> deserialize \<lparr>class_name = ''get'', config = [(''identifier'', PyStr ''nothing'')]\<rparr> None
     = Inl (UnknownObject ''regularizer'' ''nothing'')
   \<and> deserialize \<lparr>class_name = ''get'', config = []\<rparr> None = Inl (MissingArgument ''identifier'')
   \<and> deserialize \<lparr>class_name = ''six'', config = []\<rparr> None = Inl NotCallable"
  by (simp add: deserialize_def deserialize_keras_object_def globals_get globals_L1L2 globals_l2
      get_of_string_def unexpected_keyword_def call2_def call1_def float_argument_def
      L1L2_init_def cast_to_floatx_def namespace_defs)

subsection \<open>The round trip\<close>

text \<open>
  C4, for the L1L2 regularizer. For every L1L2 regularizer \<open>r\<close>, \<open>deserialize (serialize r)\<close>
  is an L1L2 regularizer with the coefficients of \<open>r\<close> and the penalty of \<open>r\<close> on every
  tensor.
\<close>

theorem L1L2_round_trip:
  "\<exists>r'. round_trip (L1L2_instance r) = Inr (L1L2_instance r')
        \<and> l1 r' = l1 r \<and> l2 r' = l2 r \<and> (\<forall>x. L1L2_call r' x = L1L2_call r x)"
  by (cases r)
     (simp add: round_trip_def serialize_def serialize_keras_object_def L1L2_get_config_def
        deserialize_def deserialize_keras_object_def globals_L1L2 call2_def unexpected_keyword_def
        float_argument_def L1L2_init_def cast_to_floatx_def)

theorem L1L2_round_trip_witness:
  "round_trip (L1L2_instance (L1L2_init 0.3 0.7)) = Inr (L1L2_instance (L1L2 0.3 0.7))"
proof -
  obtain r' where rt: "round_trip (L1L2_instance (L1L2_init 0.3 0.7)) = Inr (L1L2_instance r')"
    and c1: "l1 r' = l1 (L1L2_init 0.3 0.7)" and c2: "l2 r' = l2 (L1L2_init 0.3 0.7)"
    using L1L2_round_trip [of "L1L2_init 0.3 0.7"] by blast
  have "r' = L1L2 0.3 0.7"
    using c1 c2 by (cases r') (simp add: L1L2_init_def cast_to_floatx_def)
  with rt show ?thesis by simp
qed

text \<open>
  C4, for every stateless variant, fails. The base class and the eigenvalue regularizer
  have no \<^verbatim>\<open>get_config\<close>, so \<open>serialize\<close> fails on their instances and the round trip
  reconstructs nothing.
\<close>

theorem round_trip_counterexample:
  "round_trip Regularizer_instance = Inl (AttributeError ''get_config'')
   \<and> round_trip (EigenvalueRegularizer_instance (EigenvalueRegularizer_init 1))
       = Inl (AttributeError ''get_config'')"
  by (simp add: round_trip_def serialize_def serialize_keras_object_def)

subsection \<open>The lowercase names\<close>

text \<open>
  C5 has the lowercase names \<^verbatim>\<open>l1\<close>, \<^verbatim>\<open>l2\<close> and \<^verbatim>\<open>l1_l2\<close> construct the stateless
  L1L2 penalty. In the namespace of the module the later definitions of \<^verbatim>\<open>l1\<close> and
  \<^verbatim>\<open>l2\<close> have replaced the aliases: \<open>get\<close> of the string \<^verbatim>\<open>l2\<close> is an unbound
  \<^verbatim>\<open>WeightRegularizer\<close> with the coefficients \<open>0\<close> and \<open>0.01\<close>, the name \<^verbatim>\<open>l1\<close>
  constructs a \<^verbatim>\<open>WeightRegularizer\<close> too, and only \<^verbatim>\<open>l1_l2\<close> constructs an
  \<^verbatim>\<open>L1L2\<close>.
\<close>

theorem get_l2_is_legacy:
  "get (IdStr ''l2'') = Inr (Some (Instance (WeightRegularizer_instance (legacy_l2 0.01))))
   \<and> legacy_l2 0.01 = \<lparr>wr_l1 = 0, wr_l2 = 0.01, wr_uses_learning_phase = True, wr_p = None\<rparr>
   \<and> deserialize \<lparr>class_name = ''l1'', config = []\<rparr> None
       = Inr (WeightRegularizer_instance (legacy_l1 0.01))
   \<and> deserialize \<lparr>class_name = ''l1_l2'', config = []\<rparr> None
       = Inr (L1L2_instance (l1_l2 0.01 0.01))"
  by (simp add: deserialize_def deserialize_keras_object_def globals_l1 globals_l2 globals_l1_l2
      call1_def call2_def unexpected_keyword_def float_argument_def legacy_l2_def
      WeightRegularizer_init_def cast_to_floatx_def)

subsection \<open>The legacy bound variants\<close>

text \<open>
  C8. For a weight regularizer and for an activity regularizer: binding on an instance
  that is bound fails with the reuse error; calling an instance that is not bound fails
  with the unbound-use error; binding an owner on an instance that is not bound succeeds,
  and a second bind on the result fails with the reuse error; an instance that was just
  constructed is not bound.
\<close>

theorem legacy_bind_once:
  "(wr_p w \<noteq> None \<longrightarrow> set_param w q = Inl (Exception reuse_message))
   \<and> (wr_p w = None \<longrightarrow>
        WeightRegularizer_call w loss training = Inl (Exception unbound_param_message)
        \<and> set_param w (Some t) = Inr (w\<lparr>wr_p := Some t\<rparr>)
        \<and> set_param (w\<lparr>wr_p := Some t\<rparr>) q = Inl (Exception reuse_message))
   \<and> wr_p (WeightRegularizer_init a b) = None
   \<and> (ar_layer r \<noteq> None \<longrightarrow> set_layer r ql = Inl (Exception ''Regularizers cannot be reused''))
   \<and> (ar_layer r = None \<longrightarrow>
        ActivityRegularizer_call r loss training = Inl (Exception unbound_layer_message)
        \<and> set_layer r (Some ly) = Inr (r\<lparr>ar_layer := Some ly\<rparr>)
        \<and> set_layer (r\<lparr>ar_layer := Some ly\<rparr>) ql = Inl (Exception ''Regularizers cannot be reused''))
   \<and> ar_layer (ActivityRegularizer_init a b) = None"
  by (simp add: set_param_def set_layer_def WeightRegularizer_call_def ActivityRegularizer_call_def
      WeightRegularizer_init_def ActivityRegularizer_init_def)

theorem legacy_bind_once_witness:
  "wr_p (WeightRegularizer_init 1 2) = None
   \<and> WeightRegularizer_call (WeightRegularizer_init 1 2) 5 True = Inl (Exception unbound_param_message)
   \<and> set_param (WeightRegularizer_init 1 2) (Some (Tensor [1] [7]))
       = Inr ((WeightRegularizer_init 1 2)\<lparr>wr_p := Some (Tensor [1] [7])\<rparr>)
   \<and> wr_p ((WeightRegularizer_init 1 2)\<lparr>wr_p := Some (Tensor [1] [7])\<rparr>) \<noteq> None
   \<and> set_param ((WeightRegularizer_init 1 2)\<lparr>wr_p := Some (Tensor [1] [7])\<rparr>) (Some (Tensor [1] [8]))
       = Inl (Exception reuse_message)
   \<and> ar_layer (ActivityRegularizer_init 1 2) = None
   \<and> ActivityRegularizer_call (ActivityRegularizer_init 1 2) 5 True = Inl (Exception unbound_layer_message)
   \<and> set_layer (ActivityRegularizer_init 1 2) (Some (Layer []))
       = Inr ((ActivityRegularizer_init 1 2)\<lparr>ar_layer := Some (Layer [])\<rparr>)
   \<and> ar_layer ((ActivityRegularizer_init 1 2)\<lparr>ar_layer := Some (Layer [])\<rparr>) \<noteq> None
   \<and> set_layer ((ActivityRegularizer_init 1 2)\<lparr>ar_layer := Some (Layer [])\<rparr>) (Some (Layer []))
       = Inl (Exception ''Regularizers cannot be reused'')"
  using legacy_bind_once [where w = "WeightRegularizer_init 1 2" and t = "Tensor [1] [7]"
          and q = "Some (Tensor [1] [8])" and loss = 5 and training = True
          and r = "ActivityRegularizer_init 1 2" and ly = "Layer []" and ql = "Some (Layer [])"
          and a = 1 and b = 2]
        legacy_bind_once [where w = "(WeightRegularizer_init 1 2)\<lparr>wr_p := Some (Tensor [1] [7])\<rparr>"
          and q = "Some (Tensor [1] [8])"
          and r = "(ActivityRegularizer_init 1 2)\<lparr>ar_layer := Some (Layer [])\<rparr>" and ql = "Some (Layer [])"]
  by (simp add: WeightRegularizer_init_def ActivityRegularizer_init_def)

lemma weight_call_bound:
  assumes "wr_p w = Some param"
  shows "WeightRegularizer_call w loss training =
           Inr (if training then loss + wr_l1 w * K_sum (K_abs param) + wr_l2 w * K_sum (K_square param)
                else loss,
                (if wr_l1 w = 0 then [] else [AbsSum]) @ (if wr_l2 w = 0 then [] else [SquareSum]))"
  using assms
  by (simp add: WeightRegularizer_call_def K_in_train_phase_def add_sum_def K_sum_scale Let_def)

text \<open>
  C9. For a weight regularizer bound to the parameter tensor \<open>param\<close> and every loss: in
  the training phase the loss returned is the input loss plus \<open>l1 * sum (abs param)\<close> plus
  \<open>l2 * sum (square param)\<close>, and the summands computed are those whose coefficient is
  not zero; outside the training phase the loss returned is the input loss.
\<close>

theorem WeightRegularizer_call_bound:
  assumes "wr_p w = Some param"
  shows "WeightRegularizer_call w loss True
           = Inr (loss + wr_l1 w * K_sum (K_abs param) + wr_l2 w * K_sum (K_square param),
                  (if wr_l1 w = 0 then [] else [AbsSum]) @ (if wr_l2 w = 0 then [] else [SquareSum]))
       \<and> WeightRegularizer_call w loss False
           = Inr (loss,
                  (if wr_l1 w = 0 then [] else [AbsSum]) @ (if wr_l2 w = 0 then [] else [SquareSum]))"
  using assms by (simp add: weight_call_bound)

theorem WeightRegularizer_call_bound_witness:
  "wr_p ((WeightRegularizer_init 2 0)\<lparr>wr_p := Some (Tensor [3] [1, - 2, 3])\<rparr>)
     = Some (Tensor [3] [1, - 2, 3])
   \<and> WeightRegularizer_call ((WeightRegularizer_init 2 0)\<lparr>wr_p := Some (Tensor [3] [1, - 2, 3])\<rparr>) 5 True
       = Inr (17, [AbsSum])
   \<and> WeightRegularizer_call ((WeightRegularizer_init 2 0)\<lparr>wr_p := Some (Tensor [3] [1, - 2, 3])\<rparr>) 5 False
       = Inr (5, [AbsSum])"
  using WeightRegularizer_call_bound
          [of "(WeightRegularizer_init 2 0)\<lparr>wr_p := Some (Tensor [3] [1, - 2, 3])\<rparr>"
              "Tensor [3] [1, - 2, 3]" 5]
  by (simp add: WeightRegularizer_init_def cast_to_floatx_def K_sum_def K_abs_def K_square_def)

text \<open>
  C10. On a weight regularizer that is not bound, \<open>set_param\<close> with \<^verbatim>\<open>None\<close> succeeds and
  leaves the instance as it was: a call still fails with the unbound-use error, and a
  further \<open>set_param\<close> succeeds instead of failing with the reuse error.
\<close>

theorem set_param_None_stays_unbound:
  assumes "wr_p w = None"
  shows "set_param w None = Inr w
       \<and> WeightRegularizer_call w loss training = Inl (Exception unbound_param_message)
       \<and> set_param w q = Inr (w\<lparr>wr_p := q\<rparr>)
       \<and> set_param w q \<noteq> Inl (Exception reuse_message)"
  using assms by (simp add: set_param_def WeightRegularizer_call_def)

theorem set_param_None_stays_unbound_witness:
  "wr_p (WeightRegularizer_init 1 2) = None
   \<and> set_param (WeightRegularizer_init 1 2) None = Inr (WeightRegularizer_init 1 2)
   \<and> WeightRegularizer_call (WeightRegularizer_init 1 2) 5 True = Inl (Exception unbound_param_message)
   \<and> set_param (WeightRegularizer_init 1 2) (Some (Tensor [1] [7]))
       = Inr ((WeightRegularizer_init 1 2)\<lparr>wr_p := Some (Tensor [1] [7])\<rparr>)"
  using set_param_None_stays_unbound [of "WeightRegularizer_init 1 2" 5 True "Some (Tensor [1] [7])"]
  by (simp add: WeightRegularizer_init_def)

end
